theory Spec2Isabelle
  imports Complex_Main
begin

section \<open>JavaScript values used by the frontend\<close>

text \<open>
  A JavaScript string is a sequence of UTF-16 code units; a code unit is modelled as a
  natural number, so that characters outside ASCII (the em dash U+2014 returned by
  \<open>formatCurrency\<close>, the Unicode white space stripped by \<open>trim\<close>) are single elements.
  \<open>js\<close> embeds an ASCII literal of the source.
\<close>

type_synonym js_string = "nat list"

definition js :: "string \<Rightarrow> js_string" where
  "js s = map of_char s"

text \<open>
  A JavaScript number. The operations the components apply to a number before formatting
  it (\<open>Math.abs\<close>, comparison with zero) are exact on IEEE doubles, so a finite double is
  modelled by the rational it denotes; the special values are kept apart. \<open>Finite 0\<close> is
  positive zero and \<open>NegZero\<close> is negative zero.
\<close>

datatype js_number = NaN | PosInfinity | NegInfinity | NegZero | Finite rat

fun Math_abs :: "js_number \<Rightarrow> js_number" where
  "Math_abs NaN = NaN"
| "Math_abs PosInfinity = PosInfinity"
| "Math_abs NegInfinity = PosInfinity"
| "Math_abs NegZero = Finite 0"
| "Math_abs (Finite r) = Finite \<bar>r\<bar>"

text \<open>The comparison \<open>value < 0\<close>: false for NaN and for both zeros.\<close>

fun less_than_zero :: "js_number \<Rightarrow> bool" where
  "less_than_zero NaN = False"
| "less_than_zero PosInfinity = False"
| "less_than_zero NegInfinity = True"
| "less_than_zero NegZero = False"
| "less_than_zero (Finite r) = (r < 0)"

text \<open>
  The value of a template cell as the response carries it: a number or \<open>null\<close>;
  \<open>undefined\<close> is what reading an absent property gives.
\<close>

datatype js_value = Undefined | Null | Number js_number

text \<open>
  An object with string keys, as the list of its properties in their own order.
  Reading a property that the object does not have gives \<open>undefined\<close>.
\<close>

type_synonym js_object = "(js_string \<times> js_value) list"

definition get_prop :: "js_object \<Rightarrow> js_string \<Rightarrow> js_value" where
  "get_prop d k = (case map_of d k of None \<Rightarrow> Undefined | Some v \<Rightarrow> v)"

subsection \<open>String.prototype.trim, String.prototype.replace, parseInt\<close>

text \<open>
  The code units that ECMAScript counts as white space or line terminators:
  TAB, LF, VT, FF, CR, SPACE, NBSP, U+1680, U+2000..U+200A, U+2028, U+2029, U+202F,
  U+205F, U+3000 and U+FEFF.
\<close>

definition is_white_space :: "nat \<Rightarrow> bool" where
  "is_white_space c \<longleftrightarrow>
     c = 9 \<or> c = 10 \<or> c = 11 \<or> c = 12 \<or> c = 13 \<or> c = 32 \<or> c = 160 \<or> c = 5760 \<or>
     (8192 \<le> c \<and> c \<le> 8202) \<or> c = 8232 \<or> c = 8233 \<or> c = 8239 \<or> c = 8287 \<or>
     c = 12288 \<or> c = 65279"

definition trim :: "js_string \<Rightarrow> js_string" where
  "trim s = rev (dropWhile is_white_space (rev (dropWhile is_white_space s)))"

text \<open>
  \<open>s.replace(pat, rep)\<close> with a string pattern: the first occurrence of \<open>pat\<close> is replaced.
  (The source only passes the empty replacement, so the \<open>$\<close> patterns of a replacement
  string play no part.)
\<close>

fun replace :: "js_string \<Rightarrow> js_string \<Rightarrow> js_string \<Rightarrow> js_string" where
  "replace [] pat rep = (if pat = [] then rep else [])"
| "replace (c # cs) pat rep =
     (if take (length pat) (c # cs) = pat then rep @ drop (length pat) (c # cs)
      else c # replace cs pat rep)"

definition digit_of :: "nat \<Rightarrow> nat \<Rightarrow> nat option" where
  "digit_of radix c =
     (let v = (if 48 \<le> c \<and> c \<le> 57 then Some (c - 48)
               else if 97 \<le> c \<and> c \<le> 122 then Some (c - 87)
               else if 65 \<le> c \<and> c \<le> 90 then Some (c - 55)
               else None)
      in case v of None \<Rightarrow> None | Some n \<Rightarrow> if n < radix then Some n else None)"

text \<open>
  \<open>parseInt(s)\<close> with no radix: leading white space is skipped, a sign is read, a prefix
  \<open>0x\<close> or \<open>0X\<close> selects radix 16 (radix 10 otherwise; a leading zero does not mean
  octal), and the longest run of digits is the value. \<open>None\<close> is NaN.
\<close>

definition parseInt :: "js_string \<Rightarrow> int option" where
  "parseInt s =
     (let s1 = dropWhile is_white_space s;
          neg = (take 1 s1 = [45]);
          s2 = (if take 1 s1 = [45] \<or> take 1 s1 = [43] then drop 1 s1 else s1);
          hex = (take 2 s2 = [48, 120] \<or> take 2 s2 = [48, 88]);
          radix = (if hex then 16 else 10);
          s3 = (if hex then drop 2 s2 else s2);
          ds = takeWhile (\<lambda>c. digit_of radix c \<noteq> None) s3;
          n = foldl (\<lambda>a c. a * int radix + int (case digit_of radix c of Some v \<Rightarrow> v | None \<Rightarrow> 0)) 0 ds
      in if ds = [] then None else Some (if neg then - n else n))"

subsection \<open>Array.prototype.sort with a comparator\<close>

text \<open>
  \<open>xs.sort(cmp)\<close> is stable: for a consistent comparator its result is the one that
  insertion from the right gives, an element going before the first element it does not
  compare greater than.
\<close>

fun insert_sorted :: "('a \<Rightarrow> 'a \<Rightarrow> int) \<Rightarrow> 'a \<Rightarrow> 'a list \<Rightarrow> 'a list" where
  "insert_sorted cmp x [] = [x]"
| "insert_sorted cmp x (y # ys) =
     (if cmp x y \<le> 0 then x # y # ys else y # insert_sorted cmp x ys)"

definition array_sort :: "('a \<Rightarrow> 'a \<Rightarrow> int) \<Rightarrow> 'a list \<Rightarrow> 'a list" where
  "array_sort cmp xs = foldr (insert_sorted cmp) xs []"

section \<open>TemplateViewer.jsx\<close>

record field_meta =
  label :: js_string
  category :: js_string
  isTotal :: bool

text \<open>\<open>FIELD_META\<close>, with its keys in the order of the object literal.\<close>

definition FIELD_META :: "(js_string \<times> field_meta) list" where
  "FIELD_META =
    [(js ''row_010'', \<lparr>label = js ''Capital instruments eligible as CET1'', category = js ''CET1'', isTotal = False\<rparr>),
     (js ''row_020'', \<lparr>label = js ''Share premium (CET1)'', category = js ''CET1'', isTotal = False\<rparr>),
     (js ''row_030'', \<lparr>label = js ''Retained earnings'', category = js ''CET1'', isTotal = False\<rparr>),
     (js ''row_040'', \<lparr>label = js ''Accumulated OCI'', category = js ''CET1'', isTotal = False\<rparr>),
     (js ''row_050'', \<lparr>label = js ''Other reserves'', category = js ''CET1'', isTotal = False\<rparr>),
     (js ''row_060'', \<lparr>label = js ''Minority interests'', category = js ''CET1'', isTotal = False\<rparr>),
     (js ''row_070'', \<lparr>label = js ''Interim/year-end profits'', category = js ''CET1'', isTotal = False\<rparr>),
     (js ''row_080'', \<lparr>label = js ''(-) Goodwill & intangibles'', category = js ''CET1 Deductions'', isTotal = False\<rparr>),
     (js ''row_090'', \<lparr>label = js ''(-) Deferred tax assets'', category = js ''CET1 Deductions'', isTotal = False\<rparr>),
     (js ''row_095'', \<lparr>label = js ''(-) Provisions shortfall'', category = js ''CET1 Deductions'', isTotal = False\<rparr>),
     (js ''row_100'', \<lparr>label = js ''CET1 capital before adjustments'', category = js ''CET1'', isTotal = True\<rparr>),
     (js ''row_200'', \<lparr>label = js ''CET1 Capital'', category = js ''CET1'', isTotal = True\<rparr>),
     (js ''row_300'', \<lparr>label = js ''AT1 instruments'', category = js ''AT1'', isTotal = False\<rparr>),
     (js ''row_310'', \<lparr>label = js ''Share premium (AT1)'', category = js ''AT1'', isTotal = False\<rparr>),
     (js ''row_320'', \<lparr>label = js ''(-) AT1 deductions'', category = js ''AT1'', isTotal = False\<rparr>),
     (js ''row_400'', \<lparr>label = js ''Tier 1 Capital'', category = js ''Tier 1'', isTotal = True\<rparr>),
     (js ''row_500'', \<lparr>label = js ''Tier 2 instruments'', category = js ''Tier 2'', isTotal = False\<rparr>),
     (js ''row_510'', \<lparr>label = js ''Share premium (T2)'', category = js ''Tier 2'', isTotal = False\<rparr>),
     (js ''row_520'', \<lparr>label = js ''(-) Tier 2 deductions'', category = js ''Tier 2'', isTotal = False\<rparr>),
     (js ''row_600'', \<lparr>label = js ''Tier 2 Capital'', category = js ''Tier 2'', isTotal = True\<rparr>),
     (js ''row_700'', \<lparr>label = js ''TOTAL OWN FUNDS'', category = js ''Total'', isTotal = True\<rparr>)]"

text \<open>The keys of \<open>FIELD_META\<close>: the row identifiers of the template.\<close>

definition row_ids :: "js_string list" where
  "row_ids = map fst FIELD_META"

text \<open>\<open>parseInt(key.replace('row_', ''))\<close>, the number the comparator reads off a key.\<close>

definition numeric_part :: "js_string \<Rightarrow> int option" where
  "numeric_part key = parseInt (replace key (js ''row_'') [])"

text \<open>
  The comparator of \<open>displayRows\<close>, \<open>numA - numB\<close>. When either side is NaN the
  difference is NaN, which \<open>sort\<close> reads as 0.
\<close>

definition compareRows :: "js_string \<times> field_meta \<Rightarrow> js_string \<times> field_meta \<Rightarrow> int" where
  "compareRows a b =
     (case (numeric_part (fst a), numeric_part (fst b)) of
        (Some numA, Some numB) \<Rightarrow> numA - numB
      | _ \<Rightarrow> 0)"

text \<open>
  \<open>displayRows\<close>: the entries of \<open>FIELD_META\<close> whose value in \<open>data\<close> is neither \<open>null\<close>
  nor \<open>undefined\<close>, sorted by the comparator.
\<close>

definition displayRows :: "js_object \<Rightarrow> (js_string \<times> field_meta) list" where
  "displayRows d =
     array_sort compareRows
       (filter (\<lambda>(key, meta). get_prop d key \<noteq> Null \<and> get_prop d key \<noteq> Undefined) FIELD_META)"

text \<open>One key's numeric part is strictly below another's (false when either is NaN).\<close>

definition ascending :: "js_string \<Rightarrow> js_string \<Rightarrow> bool" where
  "ascending a b =
     (case (numeric_part a, numeric_part b) of
        (Some x, Some y) \<Rightarrow> x < y
      | _ \<Rightarrow> False)"

subsection \<open>Intl.NumberFormat and the two formatCurrency functions\<close>

datatype js_error = RangeError

text \<open>
  \<open>new Intl.NumberFormat('en-GB', {style: 'currency', currency, minimumFractionDigits: 0,
  maximumFractionDigits: 0}).format(x)\<close> is a function of the platform, not of the
  repository. Its rendering of a magnitude (the currency symbol, the rounding, the grouping
  separators, or a RangeError for a currency code that is not well formed) is a parameter
  of the model. Its sign handling is fixed by ECMA-402: under the default sign display a
  number below zero and negative zero are rendered by the negative pattern, which in the
  locale en-GB is the minus sign followed by the rendering of the magnitude.
\<close>

type_synonym magnitude_format = "js_string \<Rightarrow> js_number \<Rightarrow> js_error + js_string"

definition sign_negative :: "js_number \<Rightarrow> bool" where
  "sign_negative x \<longleftrightarrow> less_than_zero x \<or> x = NegZero"

definition NumberFormat_format :: "magnitude_format \<Rightarrow> js_string \<Rightarrow> js_number \<Rightarrow> js_error + js_string" where
  "NumberFormat_format mag currency x =
     (case mag currency (Math_abs x) of
        Inl e \<Rightarrow> Inl e
      | Inr s \<Rightarrow> Inr (if sign_negative x then js ''-'' @ s else s))"

text \<open>
  \<open>xs.map(f)\<close> for a callback that may throw: the first exception ends the call, and no
  array is returned.
\<close>

fun map_throwing :: "('a \<Rightarrow> js_error + 'b) \<Rightarrow> 'a list \<Rightarrow> js_error + 'b list" where
  "map_throwing f [] = Inr []"
| "map_throwing f (x # xs) =
     (case f x of
        Inl e \<Rightarrow> Inl e
      | Inr y \<Rightarrow> (case map_throwing f xs of Inl e \<Rightarrow> Inl e | Inr ys \<Rightarrow> Inr (y # ys)))"

text \<open>The default parameter \<open>currency = 'GBP'\<close>: \<open>None\<close> is an argument left out or undefined.\<close>

definition currency_param :: "js_string option \<Rightarrow> js_string" where
  "currency_param c = (case c of None \<Rightarrow> js ''GBP'' | Some s \<Rightarrow> s)"

text \<open>The em dash that both functions return for \<open>null\<close> and \<open>undefined\<close>.\<close>

definition em_dash :: js_string where
  "em_dash = [8212]"

text \<open>\<open>formatCurrency\<close> of TemplateViewer.jsx.\<close>

definition formatCurrency_TemplateViewer ::
  "magnitude_format \<Rightarrow> js_value \<Rightarrow> js_string option \<Rightarrow> js_error + js_string" where
  "formatCurrency_TemplateViewer mag v currency =
     (case v of
        Null \<Rightarrow> Inr em_dash
      | Undefined \<Rightarrow> Inr em_dash
      | Number x \<Rightarrow>
          (let absValue = Math_abs x;
               isNegative = less_than_zero x
           in case NumberFormat_format mag (currency_param currency) absValue of
                Inl e \<Rightarrow> Inl e
              | Inr formatted \<Rightarrow>
                  Inr (if isNegative then js ''('' @ formatted @ js '')'' else formatted)))"

text \<open>\<open>formatCurrency\<close> of the AuditTrail component.\<close>

definition formatCurrency_AuditTrail ::
  "magnitude_format \<Rightarrow> js_value \<Rightarrow> js_string option \<Rightarrow> js_error + js_string" where
  "formatCurrency_AuditTrail mag v currency =
     (case v of
        Null \<Rightarrow> Inr em_dash
      | Undefined \<Rightarrow> Inr em_dash
      | Number x \<Rightarrow> NumberFormat_format mag (currency_param currency) x)"

text \<open>
  The \<open>data\<close> prop of TemplateViewer: the object \<open>template_data\<close> of the response, with its
  \<open>currency\<close> property (\<open>None\<close> when absent or null) apart from its row cells.
\<close>

record template_data =
  currency :: "js_string option"
  cells :: js_object

text \<open>\<open>x || 'GBP'\<close> for a string that may be missing: the empty string is falsy too.\<close>

definition or_GBP :: "js_string option \<Rightarrow> js_string" where
  "or_GBP c = (case c of None \<Rightarrow> js ''GBP'' | Some s \<Rightarrow> if s = [] then js ''GBP'' else s)"

text \<open>\<open>value < 0\<close> for a cell: \<open>null\<close> converts to 0 and \<open>undefined\<close> to NaN.\<close>

definition cell_negative :: "js_value \<Rightarrow> bool" where
  "cell_negative v = (case v of Number x \<Rightarrow> less_than_zero x | _ \<Rightarrow> False)"

text \<open>One table row as TemplateViewer renders it.\<close>

record table_row =
  rowNum :: js_string
  meta :: field_meta
  isNegative :: bool
  amount :: js_string

text \<open>The callback of \<open>displayRows.map\<close>: one row, or the exception of \<open>formatCurrency\<close>.\<close>

definition render_row :: "magnitude_format \<Rightarrow> template_data \<Rightarrow> js_string \<times> field_meta \<Rightarrow> js_error + table_row" where
  "render_row mag d entry =
     (case formatCurrency_TemplateViewer mag (get_prop (cells d) (fst entry))
             (Some (or_GBP (currency d))) of
        Inl e \<Rightarrow> Inl e
      | Inr formatted \<Rightarrow>
          Inr \<lparr>rowNum = replace (fst entry) (js ''row_'') [],
               meta = snd entry,
               isNegative = cell_negative (get_prop (cells d) (fst entry)),
               amount = formatted\<rparr>)"

text \<open>
  The component. \<open>Inr None\<close> is the \<open>null\<close> returned for a missing \<open>data\<close>; \<open>Inr (Some _)\<close> is
  the currency shown in the header and the rows of the table body; \<open>Inl\<close> is an exception
  thrown by \<open>formatCurrency\<close> while the rows are mapped, which leaves the component with
  nothing rendered.
\<close>

definition TemplateViewer ::
  "magnitude_format \<Rightarrow> template_data option \<Rightarrow> js_error + (js_string \<times> table_row list) option" where
  "TemplateViewer mag data_prop =
     (case data_prop of
        None \<Rightarrow> Inr None
      | Some d \<Rightarrow>
          (case map_throwing (render_row mag d) (displayRows (cells d)) of
             Inl e \<Rightarrow> Inl e
           | Inr table \<Rightarrow> Inr (Some (or_GBP (currency d), table))))"

text \<open>
  A stand-in for the platform's rendering of a magnitude, used where a theorem is evaluated
  at a concrete input: the currency code followed by a mark for the digits.
\<close>

definition sample_magnitude :: magnitude_format where
  "sample_magnitude c x = Inr (c @ js '' #'')"

text \<open>Sample objects: three cells out of key order, and every row of the table filled.\<close>

definition sample_data :: js_object where
  "sample_data =
     [(js ''row_700'', Number (Finite 5)), (js ''row_020'', Number (Finite 1)), (js ''row_010'', Null)]"


section \<open>ValidationPanel.jsx\<close>

record validation_result =
  rule_id :: js_string
  rule_name :: js_string
  passed :: bool
  severity :: js_string
  message :: js_string
  affected_fields :: "js_string list"

text \<open>The three groups the panel computes from \<open>results\<close>.\<close>

definition errors :: "validation_result list \<Rightarrow> validation_result list" where
  "errors results = filter (\<lambda>r. \<not> passed r \<and> severity r = js ''ERROR'') results"

definition warnings :: "validation_result list \<Rightarrow> validation_result list" where
  "warnings results = filter (\<lambda>r. \<not> passed r \<and> severity r = js ''WARNING'') results"

definition passed_results :: "validation_result list \<Rightarrow> validation_result list" where
  "passed_results results = filter (\<lambda>r. passed r) results"

text \<open>
  What a component returns: its empty state, or its rendering. (TemplateViewer, which
  returns \<open>null\<close>, has an option instead.)
\<close>

datatype 'a view = EmptyState | Rendered 'a

text \<open>
  The panel: the empty state for a missing or empty \<open>results\<close>; otherwise the three counts
  of the summary and the three lists. The heading "Blocking Errors" and the items under it
  are rendered when \<open>errors\<close> is not empty, and the same holds of the other two lists.
\<close>

record validation_panel =
  error_count :: nat
  warning_count :: nat
  passed_count :: nat
  blocking_errors :: "validation_result list"
  warning_items :: "validation_result list"
  passed_items :: "validation_result list"

definition ValidationPanel :: "validation_result list option \<Rightarrow> validation_panel view" where
  "ValidationPanel results_prop =
     (case results_prop of
        None \<Rightarrow> EmptyState
      | Some results \<Rightarrow>
          if length results = 0 then EmptyState
          else Rendered
            \<lparr>error_count = length (errors results),
             warning_count = length (warnings results),
             passed_count = length (passed_results results),
             blocking_errors = errors results,
             warning_items = warnings results,
             passed_items = passed_results results\<rparr>)"

text \<open>
  Modelled from the spec: no function under the sources computes readiness for submission.
  The spec's sentence is: a query is "submission-ready" iff no ERROR-severity result has
  \<open>passed = false\<close>.
\<close>

definition submission_ready :: "validation_result list \<Rightarrow> bool" where
  "submission_ready results \<longleftrightarrow>
     \<not> list_ex (\<lambda>r. severity r = js ''ERROR'' \<and> passed r = False) results"

text \<open>Sample results: a failed warning and a passed error rule; then a failed error rule as well.\<close>

definition sample_warning :: validation_result where
  "sample_warning =
     \<lparr>rule_id = js ''R-DEDUCTION-SIGN'', rule_name = js ''Deduction sign'', passed = False,
      severity = js ''WARNING'', message = js ''row_080 is positive'',
      affected_fields = [js ''row_080'']\<rparr>"

definition sample_passed :: validation_result where
  "sample_passed =
     \<lparr>rule_id = js ''R-REQUIRED'', rule_name = js ''Required rows'', passed = True,
      severity = js ''ERROR'', message = [], affected_fields = []\<rparr>"

definition sample_error :: validation_result where
  "sample_error =
     \<lparr>rule_id = js ''R-REQUIRED'', rule_name = js ''Required rows'', passed = False,
      severity = js ''ERROR'', message = js ''row_010 is missing'',
      affected_fields = [js ''row_010'']\<rparr>"

section \<open>The AuditTrail component\<close>

text \<open>
  \<open>confidence_indicators\<close> of an audit entry: a field entry carries \<open>has_source_reference\<close>
  and \<open>source_relevance\<close>, the OVERALL entry \<open>sources_used\<close> and \<open>fields_populated\<close>. An absent
  \<open>has_source_reference\<close> is falsy, so it is \<open>False\<close>; the other absent properties are \<open>None\<close>.
\<close>

record confidence =
  has_source_reference :: bool
  source_relevance :: "js_string option"
  sources_used :: "nat option"
  fields_populated :: "nat option"

record audit_entry =
  field_row :: js_string
  field_name :: js_string
  entry_value :: js_value
  entry_currency :: "js_string option"
  source_reference :: js_string
  reasoning :: js_string
  confidence_indicators :: "confidence option"

definition fieldEntries :: "audit_entry list \<Rightarrow> audit_entry list" where
  "fieldEntries entries = filter (\<lambda>e. field_row e \<noteq> js ''OVERALL'') entries"

definition overallEntry :: "audit_entry list \<Rightarrow> audit_entry option" where
  "overallEntry entries = find (\<lambda>e. field_row e = js ''OVERALL'') entries"

text \<open>
  The rendering: the count in the header, one card per field entry (the entry and its
  formatted value) and the summary block, present when an OVERALL entry was found.
\<close>

record audit_view =
  traced_count :: nat
  cards :: "(audit_entry \<times> js_string) list"
  summary :: "audit_entry option"

text \<open>The callback of \<open>fieldEntries.map\<close>: one card, or the exception of \<open>formatCurrency\<close>.\<close>

definition render_card :: "magnitude_format \<Rightarrow> audit_entry \<Rightarrow> js_error + audit_entry \<times> js_string" where
  "render_card mag e =
     (case formatCurrency_AuditTrail mag (entry_value e) (Some (or_GBP (entry_currency e))) of
        Inl err \<Rightarrow> Inl err
      | Inr formatted \<Rightarrow> Inr (e, formatted))"

text \<open>
  The component. \<open>Inr EmptyState\<close> is the empty state for missing or empty \<open>entries\<close>;
  \<open>Inr (Rendered _)\<close> is the trail; \<open>Inl\<close> is an exception thrown by \<open>formatCurrency\<close> while
  the field entries are mapped, which leaves the component with nothing rendered.
\<close>

definition AuditTrail :: "magnitude_format \<Rightarrow> audit_entry list option \<Rightarrow> js_error + audit_view view" where
  "AuditTrail mag entries_prop =
     (case entries_prop of
        None \<Rightarrow> Inr EmptyState
      | Some entries \<Rightarrow>
          if length entries = 0 then Inr EmptyState
          else (case map_throwing (render_card mag) (fieldEntries entries) of
                  Inl err \<Rightarrow> Inl err
                | Inr rendered_cards \<Rightarrow>
                    Inr (Rendered
                      \<lparr>traced_count = length (fieldEntries entries),
                       cards = rendered_cards,
                       summary = overallEntry entries\<rparr>)))"

section \<open>QueryInterface and App\<close>

text \<open>The state of the form: the two controlled text areas.\<close>

record query_form =
  question :: js_string
  scenario :: js_string

text \<open>
  \<open>handleSubmit\<close>: after \<open>e.preventDefault()\<close>, \<open>onSubmit(question, scenario)\<close> is called when
  \<open>question.trim()\<close> is truthy, that is, not the empty string. The result is the call made,
  if any.
\<close>

definition handleSubmit :: "query_form \<Rightarrow> (js_string \<times> js_string) option" where
  "handleSubmit form =
     (if trim (question form) \<noteq> [] then Some (question form, scenario form) else None)"

text \<open>The \<open>disabled\<close> attribute of the submit button: \<open>loading || !question.trim()\<close>.\<close>

definition submit_disabled :: "bool \<Rightarrow> query_form \<Rightarrow> bool" where
  "submit_disabled loading form \<longleftrightarrow> loading \<or> trim (question form) = []"

text \<open>
  The argument of \<open>JSON.stringify\<close>: an object whose properties are strings. The body sent
  is its serialisation; the model keeps the object.
\<close>

datatype json = JString js_string | JObject "(js_string \<times> json) list"

record request =
  url :: js_string
  http_method :: js_string
  headers :: "(js_string \<times> js_string) list"
  body :: json

record api_response =
  template_data_field :: "template_data option"
  validation_results :: "validation_result list option"
  audit_trail :: "audit_entry list option"

text \<open>
  How the request ends: a response with \<open>ok\<close> and its parsed body, a response that is not
  \<open>ok\<close> with its \<open>statusText\<close>, or a rejection (of \<open>fetch\<close> or of \<open>response.json()\<close>) with the
  message of the error.
\<close>

datatype fetch_outcome = Ok api_response | NotOk js_string | Rejected js_string

record app_state =
  loading :: bool
  result :: "api_response option"
  error :: "js_string option"
  activeTab :: js_string

text \<open>The request that \<open>handleQuery\<close> passes to \<open>fetch\<close>.\<close>

definition query_request :: "js_string \<Rightarrow> js_string \<Rightarrow> request" where
  "query_request q s =
     \<lparr>url = js ''/api/query'',
      http_method = js ''POST'',
      headers = [(js ''Content-Type'', js ''application/json'')],
      body = JObject [(js ''question'', JString q), (js ''scenario'', JString s),
                      (js ''template_type'', JString (js ''C01''))]\<rparr>"

text \<open>
  \<open>handleQuery\<close>, with the server as a function from the request to the outcome: the
  request made and the state once the \<open>finally\<close> block has run.
\<close>

definition handleQuery ::
  "(request \<Rightarrow> fetch_outcome) \<Rightarrow> js_string \<Rightarrow> js_string \<Rightarrow> app_state \<Rightarrow> request \<times> app_state" where
  "handleQuery api q s st =
     (let st1 = st\<lparr>loading := True, error := None\<rparr>;
          req = query_request q s;
          st2 = (case api req of
                   Ok response_data \<Rightarrow> st1\<lparr>result := Some response_data, activeTab := js ''template''\<rparr>
                 | NotOk statusText \<Rightarrow> st1\<lparr>error := Some (js ''Error: '' @ statusText)\<rparr>
                 | Rejected msg \<Rightarrow> st1\<lparr>error := Some msg\<rparr>)
      in (req, st2\<lparr>loading := False\<rparr>))"

text \<open>
  A submission of the form inside App, where \<open>onSubmit\<close> is \<open>handleQuery\<close>: the request
  made, if any, and the state of App afterwards.
\<close>

definition form_submission ::
  "(request \<Rightarrow> fetch_outcome) \<Rightarrow> query_form \<Rightarrow> app_state \<Rightarrow> request option \<times> app_state" where
  "form_submission api form st =
     (case handleSubmit form of
        None \<Rightarrow> (None, st)
      | Some (q, s) \<Rightarrow> (let (req, st') = handleQuery api q s st in (Some req, st')))"

section \<open>The population, validation and provenance engine\<close>

text \<open>
  The engine runs behind \<open>/api/query\<close>, and its code is not among the sources: only the
  components that display its output are. Its parts below are modelled from the spec, each
  under a note that says so; the row identifiers, categories and totals are those of
  \<open>FIELD_META\<close>.
\<close>

subsection \<open>Schema Registry\<close>

text \<open>
  Modelled from the spec: the Schema Registry (section 4.1) is missing from the sources.
  A row is DERIVED when the field table marks it as a total and BASE otherwise; a row
  identifier outside the table is unknown.
\<close>

definition is_derived :: "js_string \<Rightarrow> bool" where
  "is_derived r = (case map_of FIELD_META r of Some m \<Rightarrow> isTotal m | None \<Rightarrow> False)"

definition is_base :: "js_string \<Rightarrow> bool" where
  "is_base r = (case map_of FIELD_META r of Some m \<Rightarrow> \<not> isTotal m | None \<Rightarrow> False)"

text \<open>
  Modelled from the spec: the BASE rows of one category, in canonical order. The spec's
  "CET1 base rows", "CET1 deduction rows", "AT1 rows" and "Tier2 rows" are the BASE rows of
  the categories CET1, CET1 Deductions, AT1 and Tier 2.
\<close>

definition base_rows_in :: "js_string \<Rightarrow> js_string list" where
  "base_rows_in cat = map fst (filter (\<lambda>(key, m). category m = cat \<and> \<not> isTotal m) FIELD_META)"

definition CET1_base_rows :: "js_string list" where
  "CET1_base_rows = base_rows_in (js ''CET1'')"

definition CET1_deduction_rows :: "js_string list" where
  "CET1_deduction_rows = base_rows_in (js ''CET1 Deductions'')"

definition AT1_rows :: "js_string list" where
  "AT1_rows = base_rows_in (js ''AT1'')"

definition Tier2_rows :: "js_string list" where
  "Tier2_rows = base_rows_in (js ''Tier 2'')"

subsection \<open>Template Populator\<close>

text \<open>
  Modelled from the spec: FieldCandidate (section 3), with a signed decimal as a rational.
  \<open>candidate_value = None\<close> is a value that is not numeric. An absent relevance score is
  the score 0.
\<close>

record field_candidate =
  row_id :: js_string
  candidate_value :: "rat option"
  candidate_source :: js_string
  candidate_reasoning :: js_string
  relevance_score :: rat

text \<open>
  Modelled from the spec: TemplateRecord (section 3): the fixed template type, the currency
  and one nullable signed decimal per row of the schema, in canonical order.
\<close>

record template_record =
  template_type :: js_string
  record_currency :: js_string
  rows :: "(js_string \<times> rat option) list"

definition row_of :: "template_record \<Rightarrow> js_string \<Rightarrow> rat option" where
  "row_of t r = (case map_of (rows t) r of Some v \<Rightarrow> v | None \<Rightarrow> None)"

text \<open>A null row contributes zero to a sum.\<close>

definition amount_of :: "rat option \<Rightarrow> rat" where
  "amount_of v = (case v of None \<Rightarrow> 0 | Some x \<Rightarrow> x)"

text \<open>
  Modelled from the spec: the candidates recorded as MalformedCandidate (sections 4.2 and
  7): an unknown row identifier or a value that is not numeric. (The FieldCandidate of
  section 3 carries no currency, so the record's currency is an input of the Populator.)
\<close>

definition MalformedCandidate :: "field_candidate list \<Rightarrow> field_candidate list" where
  "MalformedCandidate cs =
     filter (\<lambda>c. map_of FIELD_META (row_id c) = None \<or> candidate_value c = None) cs"

text \<open>
  Modelled from the spec: the candidates that may fill a row. A candidate for an unknown
  row or with a value that is not numeric is dropped, and a candidate for a DERIVED row is
  silently ignored.
\<close>

definition admitted :: "field_candidate list \<Rightarrow> field_candidate list" where
  "admitted cs = filter (\<lambda>c. is_base (row_id c) \<and> candidate_value c \<noteq> None) cs"

text \<open>
  Modelled from the spec: among the candidates for one BASE row the higher relevance score
  wins, and on a tie the first in input order.
\<close>

fun better :: "field_candidate option \<Rightarrow> field_candidate \<Rightarrow> field_candidate option" where
  "better None c = Some c"
| "better (Some b) c = (if relevance_score b < relevance_score c then Some c else Some b)"

definition winner :: "field_candidate list \<Rightarrow> js_string \<Rightarrow> field_candidate option" where
  "winner cs r = foldl better None (filter (\<lambda>c. row_id c = r) (admitted cs))"

text \<open>Modelled from the spec: a BASE row with no candidate remains null.\<close>

definition base_value :: "field_candidate list \<Rightarrow> js_string \<Rightarrow> rat option" where
  "base_value cs r = (case winner cs r of None \<Rightarrow> None | Some c \<Rightarrow> candidate_value c)"

text \<open>
  Modelled from the spec: a sum is null only if every one of its terms is null; a null
  term otherwise contributes zero.
\<close>

definition sum_rows :: "rat option list \<Rightarrow> rat option" where
  "sum_rows vs = (if list_all (\<lambda>v. v = None) vs then None else Some (sum_list (map amount_of vs)))"

text \<open>Modelled from the spec: the fixed formulas of the DERIVED rows (section 4.2).\<close>

definition CET1_before_adjustments :: "field_candidate list \<Rightarrow> rat option" where
  "CET1_before_adjustments cs =
     sum_rows [sum_rows (map (base_value cs) CET1_base_rows),
               sum_rows (map (base_value cs) CET1_deduction_rows)]"

definition CET1_total :: "field_candidate list \<Rightarrow> rat option" where
  "CET1_total cs = CET1_before_adjustments cs"

definition AT1_total :: "field_candidate list \<Rightarrow> rat option" where
  "AT1_total cs = sum_rows (map (base_value cs) AT1_rows)"

definition Tier1_total :: "field_candidate list \<Rightarrow> rat option" where
  "Tier1_total cs = sum_rows [CET1_total cs, AT1_total cs]"

definition Tier2_total :: "field_candidate list \<Rightarrow> rat option" where
  "Tier2_total cs = sum_rows (map (base_value cs) Tier2_rows)"

definition Total_own_funds :: "field_candidate list \<Rightarrow> rat option" where
  "Total_own_funds cs = sum_rows [Tier1_total cs, Tier2_total cs]"

text \<open>
  Modelled from the spec: the value of each row of the record. The DERIVED rows
  (\<open>row_100\<close> CET1 before adjustments, \<open>row_200\<close> CET1 total, \<open>row_400\<close> Tier 1 total,
  \<open>row_600\<close> Tier 2 total, \<open>row_700\<close> total own funds) are always computed by formula; a
  BASE row holds the value of its winning candidate.
\<close>

definition row_value :: "field_candidate list \<Rightarrow> js_string \<Rightarrow> rat option" where
  "row_value cs r =
     (if r = js ''row_100'' then CET1_before_adjustments cs
      else if r = js ''row_200'' then CET1_total cs
      else if r = js ''row_400'' then Tier1_total cs
      else if r = js ''row_600'' then Tier2_total cs
      else if r = js ''row_700'' then Total_own_funds cs
      else base_value cs r)"

text \<open>Modelled from the spec: the Template Populator, a fresh record per query.\<close>

definition populate :: "js_string \<Rightarrow> field_candidate list \<Rightarrow> template_record" where
  "populate cur cs =
     \<lparr>template_type = js ''C01'', record_currency = cur,
      rows = map (\<lambda>r. (r, row_value cs r)) row_ids\<rparr>"

subsection \<open>Validation Engine: the rule R-TOTAL-CONSISTENCY\<close>

text \<open>Modelled from the spec: the fixed tolerance, 0.01.\<close>

definition epsilon :: rat where
  "epsilon = 1 / 100"

text \<open>
  Modelled from the spec: the check of R-TOTAL-CONSISTENCY, "Total_own_funds equals
  Tier1_total + Tier2_total within epsilon", a null row read as zero.
\<close>

definition R_TOTAL_CONSISTENCY :: "template_record \<Rightarrow> bool" where
  "R_TOTAL_CONSISTENCY t \<longleftrightarrow>
     \<bar>amount_of (row_of t (js ''row_700''))
       - (amount_of (row_of t (js ''row_400'')) + amount_of (row_of t (js ''row_600'')))\<bar> \<le> epsilon"

subsection \<open>Confidence Scorer and Audit Trail Builder\<close>

text \<open>
  Modelled from the spec: the Confidence Scorer (section 4.4): at least 0.8 is High, at
  least 0.5 Medium, above 0 Low, and an absent or zero score N/A.
\<close>

definition score_bucket :: "rat \<Rightarrow> js_string" where
  "score_bucket x =
     (if 8 / 10 \<le> x then js ''High''
      else if 5 / 10 \<le> x then js ''Medium''
      else if 0 < x then js ''Low''
      else js ''N/A'')"

text \<open>
  Modelled from the spec: the rows a DERIVED row is computed from, named in its
  synthesized source reference. The AT1 total has no row of its own, so the Tier 1 total
  names the CET1 total and the AT1 rows.
\<close>

definition dependencies :: "js_string \<Rightarrow> js_string list" where
  "dependencies r =
     (if r = js ''row_100'' then CET1_base_rows @ CET1_deduction_rows
      else if r = js ''row_200'' then [js ''row_100'']
      else if r = js ''row_400'' then js ''row_200'' # AT1_rows
      else if r = js ''row_600'' then Tier2_rows
      else if r = js ''row_700'' then [js ''row_400'', js ''row_600'']
      else [])"

fun comma_join :: "js_string list \<Rightarrow> js_string" where
  "comma_join [] = []"
| "comma_join [x] = x"
| "comma_join (x # y # ys) = x @ js '','' @ comma_join (y # ys)"

text \<open>
  Modelled from the spec: the entry of one non-null row (section 4.5). The spec fixes no
  wording for the reasoning of a DERIVED row, so the wording is a parameter
  (\<open>derived_reasoning\<close>). A BASE row without a winning candidate, which the Populator never
  produces, gets an entry with no source.
\<close>

definition row_entry ::
  "(js_string \<Rightarrow> js_string) \<Rightarrow> template_record \<Rightarrow> field_candidate list \<Rightarrow> js_string \<Rightarrow> audit_entry" where
  "row_entry derived_reasoning t cs r =
     (let name = (case map_of FIELD_META r of Some m \<Rightarrow> label m | None \<Rightarrow> []);
          v = (case row_of t r of Some x \<Rightarrow> Number (Finite x) | None \<Rightarrow> Null)
      in if is_derived r then
           \<lparr>field_row = r, field_name = name, entry_value = v,
            entry_currency = Some (record_currency t),
            source_reference = js ''Derived: '' @ comma_join (dependencies r),
            reasoning = derived_reasoning r,
            confidence_indicators =
              Some \<lparr>has_source_reference = False, source_relevance = Some (js ''N/A''),
                    sources_used = None, fields_populated = None\<rparr>\<rparr>
         else
           (case winner cs r of
              Some c \<Rightarrow>
                \<lparr>field_row = r, field_name = name, entry_value = v,
                 entry_currency = Some (record_currency t),
                 source_reference = candidate_source c,
                 reasoning = candidate_reasoning c,
                 confidence_indicators =
                   Some \<lparr>has_source_reference = (trim (candidate_source c) \<noteq> []),
                         source_relevance = Some (score_bucket (relevance_score c)),
                         sources_used = None, fields_populated = None\<rparr>\<rparr>
            | None \<Rightarrow>
                \<lparr>field_row = r, field_name = name, entry_value = v,
                 entry_currency = Some (record_currency t),
                 source_reference = [], reasoning = [],
                 confidence_indicators =
                   Some \<lparr>has_source_reference = False, source_relevance = Some (js ''N/A''),
                         sources_used = None, fields_populated = None\<rparr>\<rparr>))"

text \<open>The rows of a record that are not null, in the order of the record.\<close>

definition populated_rows :: "template_record \<Rightarrow> js_string list" where
  "populated_rows t = map fst (filter (\<lambda>(r, v). v \<noteq> None) (rows t))"

text \<open>
  Modelled from the spec: the OVERALL entry: the narrative (a parameter, since the spec
  fixes no wording), the count of distinct non-empty source references of the entries that
  are not derived, and the count of non-null rows.
\<close>

definition overall_entry :: "js_string \<Rightarrow> template_record \<Rightarrow> audit_entry list \<Rightarrow> audit_entry" where
  "overall_entry narrative t field_entries =
     \<lparr>field_row = js ''OVERALL'', field_name = [], entry_value = Undefined,
      entry_currency = None, source_reference = [], reasoning = narrative,
      confidence_indicators =
        Some \<lparr>has_source_reference = False, source_relevance = None,
              sources_used =
                Some (length (remdups (filter (\<lambda>s. s \<noteq> [])
                        (map source_reference
                           (filter (\<lambda>e. \<not> is_derived (field_row e)) field_entries))))),
              fields_populated = Some (length (populated_rows t))\<rparr>\<rparr>"

text \<open>
  Modelled from the spec: the Audit Trail Builder: one entry per non-null row, in canonical
  row order, and the OVERALL entry appended last.
\<close>

definition build_audit_trail ::
  "(js_string \<Rightarrow> js_string) \<Rightarrow> js_string \<Rightarrow> template_record \<Rightarrow> field_candidate list \<Rightarrow> audit_entry list" where
  "build_audit_trail derived_reasoning narrative t cs =
     (let field_entries = map (row_entry derived_reasoning t cs) (populated_rows t)
      in field_entries @ [overall_entry narrative t field_entries])"

text \<open>A candidate with the given row, amount and relevance, and the spec's first example.\<close>

definition candidate :: "string \<Rightarrow> rat \<Rightarrow> rat \<Rightarrow> field_candidate" where
  "candidate r x score =
     \<lparr>row_id = js r, candidate_value = Some x, candidate_source = js ''CRR Article 26'',
      candidate_reasoning = js ''stated in the scenario'', relevance_score = score\<rparr>"

definition example_candidates :: "field_candidate list" where
  "example_candidates =
     [candidate ''row_010'' 1000000000 (9 / 10), candidate ''row_030'' 200000000 (9 / 10),
      candidate ''row_300'' 50000000 (6 / 10), candidate ''row_500'' 100000000 (4 / 10)]"

section \<open>Properties of the field table and of the displayed rows\<close>

lemma js_eq_iff [simp]: "js a = js b \<longleftrightarrow> a = b"
  unfolding js_def by (simp add: inj_map_eq_map inj_on_def)

lemma row_ids_eq:
  "row_ids = map js [''row_010'', ''row_020'', ''row_030'', ''row_040'', ''row_050'',
     ''row_060'', ''row_070'', ''row_080'', ''row_090'', ''row_095'', ''row_100'',
     ''row_200'', ''row_300'', ''row_310'', ''row_320'', ''row_400'', ''row_500'',
     ''row_510'', ''row_520'', ''row_600'', ''row_700'']"
  by (simp add: row_ids_def FIELD_META_def)

lemma distinct_row_ids: "distinct row_ids"
  by (simp add: row_ids_eq)

lemma numeric_part_rows:
  "map numeric_part row_ids =
     map Some [10, 20, 30, 40, 50, 60, 70, 80, 90, 95, 100, 200, 300, 310, 320, 400, 500,
       510, 520, 600, 700]"
  by (simp add: row_ids_eq numeric_part_def parseInt_def js_def digit_of_def
      is_white_space_def Let_def)

lemma insert_sorted_front:
  "\<forall>y \<in> set ys. cmp x y \<le> 0 \<Longrightarrow> insert_sorted cmp x ys = x # ys"
  by (cases ys) auto

lemma array_sort_sorted:
  "sorted_wrt (\<lambda>a b. cmp a b \<le> 0) xs \<Longrightarrow> array_sort cmp xs = xs"
  unfolding array_sort_def
  by (induction xs) (auto simp: insert_sorted_front)

lemma ascending_rows: "sorted_wrt ascending row_ids"
proof -
  have "sorted_wrt (\<lambda>x y. case (x, y) of (Some a, Some b) \<Rightarrow> a < b | _ \<Rightarrow> False)
          (map numeric_part row_ids)"
    unfolding numeric_part_rows by simp
  then show ?thesis
    by (simp add: sorted_wrt_map ascending_def [abs_def])
qed

lemma ascending_compareRows: "ascending (fst a) (fst b) \<Longrightarrow> compareRows a b \<le> 0"
  by (auto simp: ascending_def compareRows_def split: option.splits)

lemma FIELD_META_ascending: "sorted_wrt (\<lambda>a b. ascending (fst a) (fst b)) FIELD_META"
  using ascending_rows by (simp add: row_ids_def sorted_wrt_map)

lemma displayRows_filter:
  "displayRows d =
     filter (\<lambda>(key, meta). get_prop d key \<noteq> Null \<and> get_prop d key \<noteq> Undefined) FIELD_META"
proof -
  let ?xs = "filter (\<lambda>(key, meta). get_prop d key \<noteq> Null \<and> get_prop d key \<noteq> Undefined) FIELD_META"
  have "sorted_wrt (\<lambda>a b. ascending (fst a) (fst b)) ?xs"
    using FIELD_META_ascending by (rule sorted_wrt_filter)
  then have "sorted_wrt (\<lambda>a b. compareRows a b \<le> 0) ?xs"
    by (rule sorted_wrt_mono_rel [rotated]) (simp add: ascending_compareRows)
  then show ?thesis
    unfolding displayRows_def by (rule array_sort_sorted)
qed

lemma displayRows_only_table_keys:
  "(\<forall>k \<in> set row_ids. get_prop d' k = get_prop d k) \<Longrightarrow> displayRows d' = displayRows d"
  unfolding displayRows_filter row_ids_def
  by (rule filter_cong) auto

text \<open>
  Claim C8. For every \<open>template_data\<close> object, \<open>displayRows\<close> holds exactly the entries of
  \<open>FIELD_META\<close> whose value in the object is neither \<open>null\<close> nor \<open>undefined\<close>, in strictly
  ascending order of the numeric part of the row identifier; and it depends on the object
  only through the values read at the keys of \<open>FIELD_META\<close>, so the order of the object's own
  keys plays no part.
\<close>

theorem displayRows_exact_sorted:
  "set (displayRows d) =
     {(key, m). (key, m) \<in> set FIELD_META \<and> get_prop d key \<noteq> Null \<and> get_prop d key \<noteq> Undefined}
   \<and> sorted_wrt (\<lambda>a b. ascending (fst a) (fst b)) (displayRows d)
   \<and> ((\<forall>k \<in> set row_ids. get_prop d' k = get_prop d k) \<longrightarrow> displayRows d' = displayRows d)"
proof (intro conjI impI)
  show "set (displayRows d) =
     {(key, m). (key, m) \<in> set FIELD_META \<and> get_prop d key \<noteq> Null \<and> get_prop d key \<noteq> Undefined}"
    unfolding displayRows_filter by auto
  show "sorted_wrt (\<lambda>a b. ascending (fst a) (fst b)) (displayRows d)"
    unfolding displayRows_filter using FIELD_META_ascending by (rule sorted_wrt_filter)
  show "displayRows d' = displayRows d" if "\<forall>k \<in> set row_ids. get_prop d' k = get_prop d k"
    using that by (rule displayRows_only_table_keys)
qed

theorem displayRows_exact_sorted_witness:
  "displayRows (rev sample_data) = displayRows sample_data
   \<and> map fst (displayRows sample_data) = [js ''row_020'', js ''row_700'']"
proof -
  have h: "\<forall>k \<in> set row_ids. get_prop (rev sample_data) k = get_prop sample_data k"
    by (simp add: row_ids_eq sample_data_def get_prop_def)
  have "map fst (displayRows sample_data) = [js ''row_020'', js ''row_700'']"
    by (simp add: displayRows_filter FIELD_META_def sample_data_def get_prop_def)
  with h displayRows_exact_sorted [of sample_data "rev sample_data"] show ?thesis
    by blast
qed





section \<open>The query form\<close>

lemma trim_empty_iff: "trim s = [] \<longleftrightarrow> (\<forall>c \<in> set s. is_white_space c)"
proof -
  have "trim s = [] \<longleftrightarrow> (\<forall>c \<in> set (dropWhile is_white_space s). is_white_space c)"
    by (simp add: trim_def dropWhile_eq_Nil_conv)
  also have "\<dots> \<longleftrightarrow> dropWhile is_white_space s = []"
  proof
    assume a: "\<forall>c \<in> set (dropWhile is_white_space s). is_white_space c"
    show "dropWhile is_white_space s = []"
    proof (rule ccontr)
      assume "dropWhile is_white_space s \<noteq> []"
      then have "\<not> is_white_space (hd (dropWhile is_white_space s))"
        by (rule hd_dropWhile)
      moreover have "hd (dropWhile is_white_space s) \<in> set (dropWhile is_white_space s)"
        using \<open>dropWhile is_white_space s \<noteq> []\<close> by simp
      ultimately show False using a by blast
    qed
  next
    assume e: "dropWhile is_white_space s = []"
    show "\<forall>c \<in> set (dropWhile is_white_space s). is_white_space c"
      unfolding e by simp
  qed
  also have "\<dots> \<longleftrightarrow> (\<forall>c \<in> set s. is_white_space c)"
    by (simp add: dropWhile_eq_Nil_conv)
  finally show ?thesis .
qed

text \<open>
  Claim C10. On a submission of the form, \<open>onSubmit(question, scenario)\<close> is called if and
  only if the question has a character that is not white space; the submit button is
  disabled exactly when \<open>loading\<close> is true or the question is blank; and a blank question
  leads to no request.
\<close>

theorem handleSubmit_iff_not_blank:
  "(handleSubmit form = Some (question form, scenario form)
      \<longleftrightarrow> (\<exists>c \<in> set (question form). \<not> is_white_space c))
   \<and> (handleSubmit form = None \<longleftrightarrow> (\<forall>c \<in> set (question form). is_white_space c))
   \<and> (submit_disabled busy form \<longleftrightarrow> busy \<or> (\<forall>c \<in> set (question form). is_white_space c))
   \<and> ((\<forall>c \<in> set (question form). is_white_space c)
        \<longrightarrow> form_submission api form st = (None, st))"
  by (auto simp: handleSubmit_def submit_disabled_def form_submission_def trim_empty_iff)

theorem handleSubmit_iff_not_blank_witness:
  "handleSubmit \<lparr>question = js '' CET1? '', scenario = js ''a bank''\<rparr>
     = Some (js '' CET1? '', js ''a bank'')
   \<and> handleSubmit \<lparr>question = [32, 9, 160, 10], scenario = js ''a bank''\<rparr> = None
   \<and> submit_disabled False \<lparr>question = [32, 9, 160, 10], scenario = js ''a bank''\<rparr>
   \<and> form_submission (\<lambda>r. NotOk []) \<lparr>question = [32, 9, 160, 10], scenario = js ''a bank''\<rparr>
        \<lparr>loading = False, result = None, error = None, activeTab = js ''template''\<rparr>
      = (None, \<lparr>loading = False, result = None, error = None, activeTab = js ''template''\<rparr>)"
proof -
  have a: "\<exists>c \<in> set (question \<lparr>question = js '' CET1? '', scenario = js ''a bank''\<rparr>). \<not> is_white_space c"
    by (simp add: js_def is_white_space_def)
  have b: "\<forall>c \<in> set (question \<lparr>question = [32, 9, 160, 10], scenario = js ''a bank''\<rparr>). is_white_space c"
    by (simp add: is_white_space_def)
  show ?thesis
    using a b
      handleSubmit_iff_not_blank [of "\<lparr>question = js '' CET1? '', scenario = js ''a bank''\<rparr>"]
      handleSubmit_iff_not_blank [of "\<lparr>question = [32, 9, 160, 10], scenario = js ''a bank''\<rparr>" False
        "\<lambda>r. NotOk []" "\<lparr>loading = False, result = None, error = None, activeTab = js ''template''\<rparr>"]
    by simp
qed

section \<open>The two formatCurrency functions\<close>

lemma Math_abs_idem [simp]: "Math_abs (Math_abs x) = Math_abs x"
  by (cases x) simp_all

lemma sign_negative_abs [simp]: "\<not> sign_negative (Math_abs x)"
  by (cases x) (simp_all add: sign_negative_def)

lemma Math_abs_nonneg: "\<not> less_than_zero x \<Longrightarrow> x \<noteq> NegZero \<Longrightarrow> Math_abs x = x"
  by (cases x) simp_all

lemma NumberFormat_abs: "NumberFormat_format mag cur (Math_abs x) = mag cur (Math_abs x)"
  by (simp add: NumberFormat_format_def split: sum.splits)

text \<open>
  Claim C9, as amended. For \<open>null\<close> and \<open>undefined\<close> both functions return the em dash.
  For every currency and every number that is neither below zero nor negative zero they
  return the same result. For a number below zero TemplateViewer's function returns the
  rendering of the absolute value in parentheses, and AuditTrail's the same rendering after
  a minus sign. Where the platform refuses the currency code, both fail alike.
\<close>

theorem formatCurrency_versions:
  "(v = Null \<or> v = Undefined \<longrightarrow>
      formatCurrency_TemplateViewer mag v c = Inr em_dash
      \<and> formatCurrency_AuditTrail mag v c = Inr em_dash)
   \<and> (\<not> less_than_zero x \<and> x \<noteq> NegZero \<longrightarrow>
      formatCurrency_TemplateViewer mag (Number x) c = formatCurrency_AuditTrail mag (Number x) c)
   \<and> (less_than_zero x \<and> mag (currency_param c) (Math_abs x) = Inr s \<longrightarrow>
      formatCurrency_TemplateViewer mag (Number x) c = Inr (js ''('' @ s @ js '')'')
      \<and> formatCurrency_AuditTrail mag (Number x) c = Inr (js ''-'' @ s))
   \<and> (mag (currency_param c) (Math_abs x) = Inl e \<longrightarrow>
      formatCurrency_TemplateViewer mag (Number x) c = Inl e
      \<and> formatCurrency_AuditTrail mag (Number x) c = Inl e)"
proof (intro conjI impI)
  assume "v = Null \<or> v = Undefined"
  then show "formatCurrency_TemplateViewer mag v c = Inr em_dash"
    and "formatCurrency_AuditTrail mag v c = Inr em_dash"
    by (auto simp: formatCurrency_TemplateViewer_def formatCurrency_AuditTrail_def)
next
  assume a: "\<not> less_than_zero x \<and> x \<noteq> NegZero"
  then have "Math_abs x = x" by (simp add: Math_abs_nonneg)
  with a show "formatCurrency_TemplateViewer mag (Number x) c
      = formatCurrency_AuditTrail mag (Number x) c"
    by (simp add: formatCurrency_TemplateViewer_def formatCurrency_AuditTrail_def
        split: sum.splits)
next
  assume a: "less_than_zero x \<and> mag (currency_param c) (Math_abs x) = Inr s"
  then show "formatCurrency_TemplateViewer mag (Number x) c = Inr (js ''('' @ s @ js '')'')"
    by (simp add: formatCurrency_TemplateViewer_def NumberFormat_abs)
  from a show "formatCurrency_AuditTrail mag (Number x) c = Inr (js ''-'' @ s)"
    by (simp add: formatCurrency_AuditTrail_def NumberFormat_format_def sign_negative_def)
next
  assume a: "mag (currency_param c) (Math_abs x) = Inl e"
  then show "formatCurrency_TemplateViewer mag (Number x) c = Inl e"
    by (simp add: formatCurrency_TemplateViewer_def NumberFormat_abs)
  from a show "formatCurrency_AuditTrail mag (Number x) c = Inl e"
    by (simp add: formatCurrency_AuditTrail_def NumberFormat_format_def)
qed

theorem formatCurrency_versions_witness:
  "formatCurrency_TemplateViewer sample_magnitude Null None = Inr em_dash
   \<and> formatCurrency_AuditTrail sample_magnitude Null None = Inr em_dash
   \<and> formatCurrency_TemplateViewer sample_magnitude (Number (Finite 1200)) (Some (js ''EUR''))
       = formatCurrency_AuditTrail sample_magnitude (Number (Finite 1200)) (Some (js ''EUR''))
   \<and> formatCurrency_TemplateViewer sample_magnitude (Number (Finite (- 50))) None = Inr (js ''(GBP #)'')
   \<and> formatCurrency_AuditTrail sample_magnitude (Number (Finite (- 50))) None = Inr (js ''-GBP #'')"
proof -
  have a: "\<not> less_than_zero (Finite 1200) \<and> Finite 1200 \<noteq> NegZero"
    by simp
  have b: "less_than_zero (Finite (- 50))
      \<and> sample_magnitude (currency_param None) (Math_abs (Finite (- 50))) = Inr (js ''GBP #'')"
    by (simp add: sample_magnitude_def currency_param_def js_def)
  show ?thesis
    using a b
      formatCurrency_versions [of Null sample_magnitude None "Finite 1200"]
      formatCurrency_versions [of Null sample_magnitude "Some (js ''EUR'')" "Finite 1200"]
      formatCurrency_versions [of Null sample_magnitude None "Finite (- 50)" "js ''GBP #''"]
    by (simp add: js_def)
qed

text \<open>
  The claim as stated fails at negative zero, which is not below zero: TemplateViewer's
  function formats \<open>Math.abs(-0)\<close>, positive zero, with no sign, and AuditTrail's formats
  negative zero, which the platform renders with a minus sign. The two results differ
  whatever the rendering of the magnitude is, as soon as it is a string.
\<close>

theorem formatCurrency_negative_zero_differs:
  "\<not> less_than_zero NegZero
   \<and> \<not> (\<exists>mag c s. mag (currency_param c) (Finite 0) = Inr s
          \<and> formatCurrency_TemplateViewer mag (Number NegZero) c
              = formatCurrency_AuditTrail mag (Number NegZero) c)
   \<and> formatCurrency_TemplateViewer sample_magnitude (Number NegZero) None = Inr (js ''GBP #'')
   \<and> formatCurrency_AuditTrail sample_magnitude (Number NegZero) None = Inr (js ''-GBP #'')"
  by (auto simp: formatCurrency_TemplateViewer_def formatCurrency_AuditTrail_def
      NumberFormat_format_def sign_negative_def sample_magnitude_def currency_param_def js_def)

section \<open>Validation results and the request of a query\<close>

lemma submission_ready_iff: "submission_ready rs \<longleftrightarrow> errors rs = []"
  by (auto simp: submission_ready_def errors_def list_ex_iff filter_empty_conv)

lemma ValidationPanel_Rendered:
  "ValidationPanel (Some rs) = Rendered p \<Longrightarrow>
     blocking_errors p = errors rs \<and> warning_items p = warnings rs
     \<and> error_count p = length (errors rs)"
  by (auto simp: ValidationPanel_def split: if_splits)

text \<open>
  Claim C5. A list of results is ready for submission if and only if the panel's group of
  blocking errors is empty; that group is exactly the set of results with \<open>passed = false\<close>
  and severity \<open>ERROR\<close>, and the warnings group exactly the set with \<open>passed = false\<close> and
  severity \<open>WARNING\<close>. Failures of severity \<open>WARNING\<close> never block: dropping every
  \<open>WARNING\<close> result leaves readiness as it is, and results whose failures are all of
  severity \<open>WARNING\<close> are ready. For every list of results that is not empty the panel
  renders, with exactly these groups and their counts.
\<close>

theorem submission_ready_and_groups:
  "(submission_ready rs \<longleftrightarrow> errors rs = [])
   \<and> set (errors rs) = {r. r \<in> set rs \<and> passed r = False \<and> severity r = js ''ERROR''}
   \<and> set (warnings rs) = {r. r \<in> set rs \<and> passed r = False \<and> severity r = js ''WARNING''}
   \<and> submission_ready rs = submission_ready (filter (\<lambda>r. severity r \<noteq> js ''WARNING'') rs)
   \<and> ((\<forall>r \<in> set rs. passed r = False \<longrightarrow> severity r = js ''WARNING'') \<longrightarrow> submission_ready rs)
   \<and> ValidationPanel (Some rs) =
       (if rs = [] then EmptyState
        else Rendered
          \<lparr>error_count = length (errors rs),
           warning_count = length (warnings rs),
           passed_count = length (passed_results rs),
           blocking_errors = errors rs,
           warning_items = warnings rs,
           passed_items = passed_results rs\<rparr>)
   \<and> (ValidationPanel (Some rs) = Rendered p \<longrightarrow>
        blocking_errors p = errors rs \<and> warning_items p = warnings rs
        \<and> (submission_ready rs \<longleftrightarrow> error_count p = 0))"
proof (intro conjI impI)
  show "submission_ready rs \<longleftrightarrow> errors rs = []"
    by (rule submission_ready_iff)
  show "set (errors rs) = {r. r \<in> set rs \<and> passed r = False \<and> severity r = js ''ERROR''}"
    by (auto simp: errors_def)
  show "set (warnings rs) = {r. r \<in> set rs \<and> passed r = False \<and> severity r = js ''WARNING''}"
    by (auto simp: warnings_def)
  show "submission_ready rs = submission_ready (filter (\<lambda>r. severity r \<noteq> js ''WARNING'') rs)"
    by (auto simp: submission_ready_def list_ex_iff)
  show "submission_ready rs" if "\<forall>r \<in> set rs. passed r = False \<longrightarrow> severity r = js ''WARNING''"
    using that by (auto simp: submission_ready_def list_ex_iff)
  show "ValidationPanel (Some rs) =
       (if rs = [] then EmptyState
        else Rendered
          \<lparr>error_count = length (errors rs),
           warning_count = length (warnings rs),
           passed_count = length (passed_results rs),
           blocking_errors = errors rs,
           warning_items = warnings rs,
           passed_items = passed_results rs\<rparr>)"
    by (simp add: ValidationPanel_def)
next
  assume p: "ValidationPanel (Some rs) = Rendered p"
  then show "blocking_errors p = errors rs" and "warning_items p = warnings rs"
    by (simp_all add: ValidationPanel_Rendered)
  from p show "submission_ready rs \<longleftrightarrow> error_count p = 0"
    by (simp add: ValidationPanel_Rendered submission_ready_iff)
qed

theorem submission_ready_and_groups_witness:
  "submission_ready [sample_warning, sample_passed]
   \<and> errors [sample_warning, sample_passed] = []
   \<and> warnings [sample_warning, sample_passed] = [sample_warning]
   \<and> \<not> submission_ready [sample_warning, sample_error]
   \<and> errors [sample_warning, sample_error] = [sample_error]"
proof -
  let ?p = "\<lparr>error_count = 0, warning_count = 1, passed_count = 1, blocking_errors = [],
    warning_items = [sample_warning], passed_items = [sample_passed]\<rparr>"
  let ?q = "\<lparr>error_count = 1, warning_count = 1, passed_count = 0, blocking_errors = [sample_error],
    warning_items = [sample_warning], passed_items = []\<rparr>"
  have a: "\<forall>r \<in> set [sample_warning, sample_passed]. passed r = False \<longrightarrow> severity r = js ''WARNING''"
    by (simp add: sample_warning_def sample_passed_def)
  have b: "ValidationPanel (Some [sample_warning, sample_passed]) = Rendered ?p"
    by (simp add: ValidationPanel_def errors_def warnings_def passed_results_def
        sample_warning_def sample_passed_def)
  have c: "ValidationPanel (Some [sample_warning, sample_error]) = Rendered ?q"
    by (simp add: ValidationPanel_def errors_def warnings_def passed_results_def
        sample_warning_def sample_error_def)
  show ?thesis
    using a b c
      submission_ready_and_groups [of "[sample_warning, sample_passed]" ?p]
      submission_ready_and_groups [of "[sample_warning, sample_error]" ?q]
    by simp
qed

text \<open>
  Claim C6. For every question and scenario, the object that \<open>handleQuery\<close> serialises
  into the body of the request has exactly the properties \<open>question\<close>, \<open>scenario\<close> and
  \<open>template_type\<close>, in this order, the first two with the submitted strings and the last
  with the string \<open>C01\<close>; the same holds of every request that a submission of the form
  makes.
\<close>

theorem query_request_body:
  "body (query_request q s) =
     JObject [(js ''question'', JString q), (js ''scenario'', JString s),
              (js ''template_type'', JString (js ''C01''))]
   \<and> map fst (case body (query_request q s) of JObject ps \<Rightarrow> ps | JString x \<Rightarrow> []) =
       [js ''question'', js ''scenario'', js ''template_type'']
   \<and> fst (handleQuery api q s st) = query_request q s
   \<and> (fst (form_submission api form st) = Some req \<longrightarrow>
        body req = JObject [(js ''question'', JString (question form)),
                            (js ''scenario'', JString (scenario form)),
                            (js ''template_type'', JString (js ''C01''))])"
  by (auto simp: query_request_def handleQuery_def form_submission_def handleSubmit_def Let_def
      split: option.splits if_splits prod.splits)

theorem query_request_body_witness:
  "fst (form_submission (\<lambda>r. NotOk (js ''Bad Gateway''))
          \<lparr>question = js ''CET1?'', scenario = js ''a bank''\<rparr>
          \<lparr>loading = False, result = None, error = None, activeTab = js ''audit''\<rparr>)
     = Some (query_request (js ''CET1?'') (js ''a bank''))
   \<and> body (query_request (js ''CET1?'') (js ''a bank'')) =
       JObject [(js ''question'', JString (js ''CET1?'')), (js ''scenario'', JString (js ''a bank'')),
                (js ''template_type'', JString (js ''C01''))]"
proof -
  have a: "fst (form_submission (\<lambda>r. NotOk (js ''Bad Gateway''))
          \<lparr>question = js ''CET1?'', scenario = js ''a bank''\<rparr>
          \<lparr>loading = False, result = None, error = None, activeTab = js ''audit''\<rparr>)
     = Some (query_request (js ''CET1?'') (js ''a bank''))"
    by (simp add: form_submission_def handleSubmit_def handleQuery_def Let_def trim_def js_def
        is_white_space_def)
  show ?thesis
    using a query_request_body [of "js ''CET1?''" "js ''a bank''" "\<lambda>r. NotOk (js ''Bad Gateway'')"
        "\<lparr>loading = False, result = None, error = None, activeTab = js ''audit''\<rparr>"
        "\<lparr>question = js ''CET1?'', scenario = js ''a bank''\<rparr>"
        "query_request (js ''CET1?'') (js ''a bank'')"]
    by simp
qed

section \<open>The engine: recomputed totals, total consistency and the audit trail\<close>

lemma group_rows:
  "CET1_base_rows = map js [''row_010'', ''row_020'', ''row_030'', ''row_040'', ''row_050'', ''row_060'', ''row_070'']"
  "CET1_deduction_rows = map js [''row_080'', ''row_090'', ''row_095'']"
  "AT1_rows = map js [''row_300'', ''row_310'', ''row_320'']"
  "Tier2_rows = map js [''row_500'', ''row_510'', ''row_520'']"
  by (simp_all add: CET1_base_rows_def CET1_deduction_rows_def AT1_rows_def Tier2_rows_def
      base_rows_in_def FIELD_META_def)

lemma derived_rows:
  "is_derived r \<longleftrightarrow> r \<in> set (map js [''row_100'', ''row_200'', ''row_400'', ''row_600'', ''row_700''])"
  by (auto simp: is_derived_def FIELD_META_def split: option.splits if_splits)

lemma is_derived_not_base: "is_derived r \<Longrightarrow> \<not> is_base r"
  by (auto simp: is_derived_def is_base_def split: option.splits)

lemma is_base_row_ids: "is_base r \<Longrightarrow> r \<in> set row_ids"
  by (auto simp: is_base_def row_ids_def split: option.splits dest: map_of_SomeD intro: rev_image_eqI)

lemma base_rows_in_base: "r \<in> set (base_rows_in cat) \<Longrightarrow> is_base r"
proof -
  assume "r \<in> set (base_rows_in cat)"
  then obtain m where m: "(r, m) \<in> set FIELD_META" "\<not> isTotal m"
    by (auto simp: base_rows_in_def)
  have "distinct (map fst FIELD_META)"
    using distinct_row_ids by (simp add: row_ids_def)
  with m have "map_of FIELD_META r = Some m"
    by simp
  with m show ?thesis
    by (simp add: is_base_def)
qed

lemma row_of_populate:
  "row_of (populate cur cs) r = (if r \<in> set row_ids then row_value cs r else None)"
  by (simp add: row_of_def populate_def map_of_map_restrict restrict_map_def)

lemma row_value_base: "is_base r \<Longrightarrow> row_value cs r = base_value cs r"
  using is_derived_not_base [of r] by (auto simp: row_value_def derived_rows)

lemma row_of_base: "is_base r \<Longrightarrow> row_of (populate cur cs) r = base_value cs r"
  by (simp add: row_of_populate is_base_row_ids row_value_base)

lemma row_of_group:
  "map (\<lambda>r. row_of (populate cur cs) r) (base_rows_in cat) = map (base_value cs) (base_rows_in cat)"
  by (rule map_cong) (simp_all add: row_of_base base_rows_in_base)

lemma row_of_totals:
  "row_of (populate cur cs) (js ''row_100'') = CET1_before_adjustments cs"
  "row_of (populate cur cs) (js ''row_200'') = CET1_total cs"
  "row_of (populate cur cs) (js ''row_400'') = Tier1_total cs"
  "row_of (populate cur cs) (js ''row_600'') = Tier2_total cs"
  "row_of (populate cur cs) (js ''row_700'') = Total_own_funds cs"
  by (simp_all add: row_of_populate row_ids_eq row_value_def)

lemma sum_list_all_None: "list_all (\<lambda>v. v = None) vs \<Longrightarrow> sum_list (map amount_of vs) = 0"
  by (induction vs) (simp_all add: amount_of_def)

lemma amount_sum_rows: "amount_of (sum_rows vs) = sum_list (map amount_of vs)"
  by (simp add: sum_rows_def sum_list_all_None) (simp add: amount_of_def)

lemma sum_rows_None: "sum_rows vs = None \<longleftrightarrow> list_all (\<lambda>v. v = None) vs"
  by (simp add: sum_rows_def)

lemma admitted_append_derived:
  "is_derived (row_id c) \<Longrightarrow> admitted (xs @ c # ys) = admitted (xs @ ys)"
  by (simp add: admitted_def is_derived_not_base)

lemma admitted_filter_derived:
  "admitted (filter (\<lambda>c. \<not> is_derived (row_id c)) cs) = admitted cs"
  unfolding admitted_def filter_filter
  by (rule filter_cong) (auto dest: is_derived_not_base)

lemma base_value_admitted:
  "admitted cs = admitted cs' \<Longrightarrow> base_value cs = base_value cs'"
  by (rule ext) (simp add: base_value_def winner_def)

lemma row_value_admitted:
  assumes "admitted cs = admitted cs'"
  shows "row_value cs = row_value cs'"
proof -
  have "base_value cs = base_value cs'"
    using assms by (rule base_value_admitted)
  then show ?thesis
    by (intro ext)
      (simp add: row_value_def Total_own_funds_def Tier2_total_def Tier1_total_def
        AT1_total_def CET1_total_def CET1_before_adjustments_def)
qed

lemma populate_admitted:
  "admitted cs = admitted cs' \<Longrightarrow> populate cur cs = populate cur cs'"
  using row_value_admitted [of cs cs'] by (simp add: populate_def)

text \<open>
  Claim C2. For every candidate list, the CET1 total of the populated record (\<open>row_200\<close>) is
  the sum of the CET1 base rows plus the sum of the CET1 deduction rows of that record, a
  null row counting as zero, and it is null exactly when all of those rows are null. A
  candidate supplied for the CET1 total row, or for any other DERIVED row, changes nothing
  in the record, wherever it stands among the candidates.
\<close>

theorem CET1_total_recomputed:
  "amount_of (row_of (populate cur cs) (js ''row_200''))
     = (\<Sum>r\<leftarrow>CET1_base_rows. amount_of (row_of (populate cur cs) r))
       + (\<Sum>r\<leftarrow>CET1_deduction_rows. amount_of (row_of (populate cur cs) r))
   \<and> (row_of (populate cur cs) (js ''row_200'') = None
        \<longleftrightarrow> list_all (\<lambda>r. row_of (populate cur cs) r = None) (CET1_base_rows @ CET1_deduction_rows))
   \<and> (row_id c = js ''row_200'' \<longrightarrow> populate cur (xs @ c # ys) = populate cur (xs @ ys))
   \<and> (is_derived (row_id c) \<longrightarrow> populate cur (xs @ c # ys) = populate cur (xs @ ys))
   \<and> populate cur cs = populate cur (filter (\<lambda>c. \<not> is_derived (row_id c)) cs)"
proof (intro conjI impI)
  have b: "map (\<lambda>r. row_of (populate cur cs) r) CET1_base_rows = map (base_value cs) CET1_base_rows"
    and d: "map (\<lambda>r. row_of (populate cur cs) r) CET1_deduction_rows
      = map (base_value cs) CET1_deduction_rows"
    unfolding CET1_base_rows_def CET1_deduction_rows_def by (rule row_of_group)+
  have "amount_of (row_of (populate cur cs) (js ''row_200''))
      = sum_list (map amount_of (map (base_value cs) CET1_base_rows))
        + sum_list (map amount_of (map (base_value cs) CET1_deduction_rows))"
    by (simp add: row_of_totals CET1_total_def CET1_before_adjustments_def amount_sum_rows)
  also have "\<dots> = sum_list (map amount_of (map (\<lambda>r. row_of (populate cur cs) r) CET1_base_rows))
        + sum_list (map amount_of (map (\<lambda>r. row_of (populate cur cs) r) CET1_deduction_rows))"
    by (simp only: b d)
  finally show "amount_of (row_of (populate cur cs) (js ''row_200''))
     = (\<Sum>r\<leftarrow>CET1_base_rows. amount_of (row_of (populate cur cs) r))
       + (\<Sum>r\<leftarrow>CET1_deduction_rows. amount_of (row_of (populate cur cs) r))"
    by (simp add: comp_def)
  have "row_of (populate cur cs) (js ''row_200'') = None
      \<longleftrightarrow> list_all (\<lambda>v. v = None) (map (base_value cs) CET1_base_rows)
          \<and> list_all (\<lambda>v. v = None) (map (base_value cs) CET1_deduction_rows)"
    by (simp add: row_of_totals CET1_total_def CET1_before_adjustments_def sum_rows_None)
  also have "\<dots> \<longleftrightarrow> list_all (\<lambda>v. v = None) (map (\<lambda>r. row_of (populate cur cs) r) CET1_base_rows)
          \<and> list_all (\<lambda>v. v = None) (map (\<lambda>r. row_of (populate cur cs) r) CET1_deduction_rows)"
    by (simp only: b d)
  finally show "row_of (populate cur cs) (js ''row_200'') = None
        \<longleftrightarrow> list_all (\<lambda>r. row_of (populate cur cs) r = None) (CET1_base_rows @ CET1_deduction_rows)"
    by (auto simp: list_all_iff)
  show "populate cur (xs @ c # ys) = populate cur (xs @ ys)" if "row_id c = js ''row_200''"
    using that by (intro populate_admitted admitted_append_derived) (simp add: derived_rows)
  show "populate cur (xs @ c # ys) = populate cur (xs @ ys)" if "is_derived (row_id c)"
    using that by (intro populate_admitted admitted_append_derived)
  show "populate cur cs = populate cur (filter (\<lambda>c. \<not> is_derived (row_id c)) cs)"
    by (rule populate_admitted) (simp add: admitted_filter_derived)
qed

text \<open>
  The spec's first example: with 1,000,000,000 in \<open>row_010\<close>, 200,000,000 in \<open>row_030\<close>,
  50,000,000 in \<open>row_300\<close> and 100,000,000 in \<open>row_500\<close> the totals are 1,200,000,000 (CET1),
  1,250,000,000 (Tier 1), 100,000,000 (Tier 2) and 1,350,000,000 (own funds).
\<close>

lemma example_admitted: "admitted example_candidates = example_candidates"
  by (simp add: admitted_def example_candidates_def candidate_def is_base_def FIELD_META_def)

lemma example_base_values:
  "map (base_value example_candidates) CET1_base_rows
     = [Some 1000000000, None, Some 200000000, None, None, None, None]"
  "map (base_value example_candidates) CET1_deduction_rows = [None, None, None]"
  "map (base_value example_candidates) AT1_rows = [Some 50000000, None, None]"
  "map (base_value example_candidates) Tier2_rows = [Some 100000000, None, None]"
  by (simp_all add: group_rows base_value_def winner_def example_admitted)
    (simp_all add: example_candidates_def candidate_def)

lemma example_rows:
  "map (row_of (populate (js ''GBP'') example_candidates))
     (map js [''row_200'', ''row_400'', ''row_600'', ''row_700''])
   = [Some 1200000000, Some 1250000000, Some 100000000, Some 1350000000]"
  by (simp add: row_of_totals Total_own_funds_def Tier2_total_def Tier1_total_def
      AT1_total_def CET1_total_def CET1_before_adjustments_def example_base_values
      sum_rows_def amount_of_def)

text \<open>
  The spec's examples of section 8: of two candidates for one row the one with relevance 0.9
  wins over the one with 0.4, in either order, and the first wins a tie; a deduction of
  50,000,000 in \<open>row_080\<close> lowers the CET1 total, the Tier 1 total and total own funds.
\<close>

lemma example_duplicates:
  "base_value [candidate ''row_010'' 7 (4 / 10), candidate ''row_010'' 9 (9 / 10)] (js ''row_010'') = Some 9"
  "base_value [candidate ''row_010'' 9 (9 / 10), candidate ''row_010'' 7 (4 / 10)] (js ''row_010'') = Some 9"
  "base_value [candidate ''row_010'' 9 (1 / 2), candidate ''row_010'' 7 (1 / 2)] (js ''row_010'') = Some 9"
  by (simp_all add: base_value_def winner_def admitted_def candidate_def is_base_def FIELD_META_def)

lemma example_deduction_admitted:
  "admitted (example_candidates @ [candidate ''row_080'' (- 50000000) (9 / 10)])
     = example_candidates @ [candidate ''row_080'' (- 50000000) (9 / 10)]"
  by (simp add: admitted_def example_candidates_def candidate_def is_base_def FIELD_META_def)

lemma example_deduction:
  "map (row_of (populate (js ''GBP'')
          (example_candidates @ [candidate ''row_080'' (- 50000000) (9 / 10)])))
     (map js [''row_200'', ''row_400'', ''row_600'', ''row_700''])
   = [Some 1150000000, Some 1200000000, Some 100000000, Some 1300000000]"
proof -
  let ?cs = "example_candidates @ [candidate ''row_080'' (- 50000000) (9 / 10)]"
  have "map (base_value ?cs) CET1_base_rows
      = [Some 1000000000, None, Some 200000000, None, None, None, None]"
    and "map (base_value ?cs) CET1_deduction_rows = [Some (- 50000000), None, None]"
    and "map (base_value ?cs) AT1_rows = [Some 50000000, None, None]"
    and "map (base_value ?cs) Tier2_rows = [Some 100000000, None, None]"
    by (simp_all add: group_rows base_value_def winner_def example_deduction_admitted)
      (simp_all add: example_candidates_def candidate_def)
  then show ?thesis
    by (simp add: row_of_totals Total_own_funds_def Tier2_total_def Tier1_total_def
        AT1_total_def CET1_total_def CET1_before_adjustments_def sum_rows_def amount_of_def)
qed

theorem CET1_total_recomputed_witness:
  "row_of (populate (js ''GBP'') (candidate ''row_200'' 999 1 # example_candidates)) (js ''row_200'')
     = Some 1200000000
   \<and> populate (js ''GBP'') (candidate ''row_200'' 999 1 # example_candidates)
     = populate (js ''GBP'') example_candidates"
proof -
  have a: "row_id (candidate ''row_200'' 999 1) = js ''row_200''"
    by (simp add: candidate_def)
  have b: "row_of (populate (js ''GBP'') example_candidates) (js ''row_200'') = Some 1200000000"
    using example_rows by simp
  show ?thesis
    using a b CET1_total_recomputed [of "js ''GBP''" example_candidates "candidate ''row_200'' 999 1"
        "[]" example_candidates]
    by simp
qed

text \<open>
  Claim C3. For every record that the Template Populator produces, total own funds
  (\<open>row_700\<close>) equals the Tier 1 total (\<open>row_400\<close>) plus the Tier 2 total (\<open>row_600\<close>), so the
  check of R-TOTAL-CONSISTENCY passes within epsilon; and total own funds is null exactly
  when both totals are null.
\<close>

theorem total_consistency_holds:
  "R_TOTAL_CONSISTENCY (populate cur cs)
   \<and> amount_of (row_of (populate cur cs) (js ''row_700''))
       = amount_of (row_of (populate cur cs) (js ''row_400''))
         + amount_of (row_of (populate cur cs) (js ''row_600''))
   \<and> (row_of (populate cur cs) (js ''row_700'') = None
        \<longleftrightarrow> row_of (populate cur cs) (js ''row_400'') = None
            \<and> row_of (populate cur cs) (js ''row_600'') = None)"
proof -
  have s: "amount_of (row_of (populate cur cs) (js ''row_700''))
       = amount_of (row_of (populate cur cs) (js ''row_400''))
         + amount_of (row_of (populate cur cs) (js ''row_600''))"
    by (simp add: row_of_totals Total_own_funds_def amount_sum_rows)
  have n: "row_of (populate cur cs) (js ''row_700'') = None
        \<longleftrightarrow> row_of (populate cur cs) (js ''row_400'') = None
            \<and> row_of (populate cur cs) (js ''row_600'') = None"
    by (simp add: row_of_totals Total_own_funds_def sum_rows_None)
  have "R_TOTAL_CONSISTENCY (populate cur cs)"
    unfolding R_TOTAL_CONSISTENCY_def s by (simp add: epsilon_def)
  with s n show ?thesis
    by blast
qed

text \<open>
  The check is not empty: a record that is not the Populator's can fail it.
\<close>

lemma total_consistency_can_fail:
  "\<not> R_TOTAL_CONSISTENCY
      \<lparr>template_type = js ''C01'', record_currency = js ''GBP'',
       rows = [(js ''row_400'', Some 1), (js ''row_600'', Some 1), (js ''row_700'', Some 3)]\<rparr>"
  by (simp add: R_TOTAL_CONSISTENCY_def row_of_def amount_of_def epsilon_def)

lemma field_row_row_entry [simp]: "field_row (row_entry dr t cs r) = r"
  by (simp add: row_entry_def Let_def split: option.splits)

lemma populated_rows_populate:
  "populated_rows (populate cur cs) = filter (\<lambda>r. row_of (populate cur cs) r \<noteq> None) row_ids"
proof -
  have "populated_rows (populate cur cs) = filter (\<lambda>r. row_value cs r \<noteq> None) row_ids"
    by (simp add: populated_rows_def populate_def filter_map comp_def)
  also have "\<dots> = filter (\<lambda>r. row_of (populate cur cs) r \<noteq> None) row_ids"
    by (rule filter_cong) (simp_all add: row_of_populate)
  finally show ?thesis .
qed

lemma OVERALL_not_row: "js ''OVERALL'' \<notin> set row_ids"
  by (simp add: row_ids_eq)

lemma find_last:
  "\<forall>x \<in> set xs. \<not> P x \<Longrightarrow> P y \<Longrightarrow> find P (xs @ [y]) = Some y"
  by (induction xs) simp_all

lemma AuditTrail_partition:
  assumes "\<forall>e \<in> set es. field_row e \<noteq> js ''OVERALL''" and "field_row last_entry = js ''OVERALL''"
  shows "fieldEntries (es @ [last_entry]) = es"
    and "overallEntry (es @ [last_entry]) = Some last_entry"
    and "filter (\<lambda>e. field_row e = js ''OVERALL'') (es @ [last_entry]) = [last_entry]"
  using assms by (simp_all add: fieldEntries_def overallEntry_def find_last)

lemma build_audit_trail_shape:
  "\<exists>es last_entry. build_audit_trail dr nar (populate cur cs) cs = es @ [last_entry]
     \<and> map field_row es = populated_rows (populate cur cs)
     \<and> field_row last_entry = js ''OVERALL''
     \<and> (\<forall>e \<in> set es. field_row e \<noteq> js ''OVERALL'')"
proof -
  let ?t = "populate cur cs"
  let ?es = "map (row_entry dr ?t cs) (populated_rows ?t)"
  have "set (populated_rows ?t) \<subseteq> set row_ids"
    by (auto simp: populated_rows_populate)
  then have "\<forall>e \<in> set ?es. field_row e \<noteq> js ''OVERALL''"
    using OVERALL_not_row by auto
  moreover have "map field_row ?es = populated_rows ?t"
    by (simp add: comp_def)
  ultimately show ?thesis
    by (simp add: build_audit_trail_def overall_entry_def Let_def)
qed

text \<open>
  In the model of the engine, too, no other row identifier is accepted or shown: the
  Populator admits candidates for rows of the field table only, and the field entries of
  the audit trail carry identifiers of that table.
\<close>

lemma admitted_rows_in_table: "set (map row_id (admitted cs)) \<subseteq> set row_ids"
  by (auto simp: admitted_def is_base_row_ids)

lemma audit_trail_rows_in_table:
  "set (map field_row (fieldEntries (build_audit_trail dr nar (populate cur cs) cs))) \<subseteq> set row_ids"
proof -
  obtain es last_entry where t: "build_audit_trail dr nar (populate cur cs) cs = es @ [last_entry]"
    and rows: "map field_row es = populated_rows (populate cur cs)"
    and o: "field_row last_entry = js ''OVERALL''"
    and f: "\<forall>e \<in> set es. field_row e \<noteq> js ''OVERALL''"
    using build_audit_trail_shape by blast
  have "fieldEntries (es @ [last_entry]) = es"
    using f o by (rule AuditTrail_partition)
  then show ?thesis
    unfolding t by (simp only: rows populated_rows_populate) auto
qed

lemma render_card_succeeds:
  assumes "\<forall>c x. \<exists>s. mag c x = Inr s"
  shows "\<exists>s. render_card mag e = Inr (e, s)"
proof (cases "entry_value e")
  case (Number x)
  obtain s where "mag (currency_param (Some (or_GBP (entry_currency e)))) (Math_abs x) = Inr s"
    using assms by blast
  with Number show ?thesis
    by (simp add: render_card_def formatCurrency_AuditTrail_def NumberFormat_format_def)
qed (simp_all add: render_card_def formatCurrency_AuditTrail_def)

lemma map_throwing_succeeds:
  "\<forall>x \<in> set xs. \<exists>s. f x = Inr (x, s) \<Longrightarrow> \<exists>ys. map_throwing f xs = Inr ys \<and> map fst ys = xs"
proof (induction xs)
  case Nil
  then show ?case by simp
next
  case (Cons x xs)
  then obtain s ys where "f x = Inr (x, s)" and "map_throwing f xs = Inr ys" and "map fst ys = xs"
    by auto
  then show ?case by simp
qed

text \<open>
  Claim C4. In the audit trail built for the populated record, exactly one entry has
  \<open>field_row = OVERALL\<close> and it is the last one; the entries before it carry, in order and
  each once, the identifiers of the rows of the record that are not null. So the
  component's \<open>fieldEntries\<close> are all entries but the last, its \<open>overallEntry\<close> is the last
  entry, the two together cover the trail with every entry once, and the component renders
  one card per non-null row and the last entry as the summary, unless \<open>formatCurrency\<close>
  throws on one of the entries; where the platform formats every value, the component does
  render.
\<close>

theorem audit_trail_overall_last:
  "length (filter (\<lambda>e. field_row e = js ''OVERALL'') (build_audit_trail dr nar (populate cur cs) cs)) = 1
   \<and> field_row (last (build_audit_trail dr nar (populate cur cs) cs)) = js ''OVERALL''
   \<and> map field_row (butlast (build_audit_trail dr nar (populate cur cs) cs))
       = filter (\<lambda>r. row_of (populate cur cs) r \<noteq> None) row_ids
   \<and> distinct (map field_row (butlast (build_audit_trail dr nar (populate cur cs) cs)))
   \<and> fieldEntries (build_audit_trail dr nar (populate cur cs) cs)
       = butlast (build_audit_trail dr nar (populate cur cs) cs)
   \<and> overallEntry (build_audit_trail dr nar (populate cur cs) cs)
       = Some (last (build_audit_trail dr nar (populate cur cs) cs))
   \<and> fieldEntries (build_audit_trail dr nar (populate cur cs) cs)
       @ [last (build_audit_trail dr nar (populate cur cs) cs)]
       = build_audit_trail dr nar (populate cur cs) cs
   \<and> AuditTrail mag (Some (build_audit_trail dr nar (populate cur cs) cs))
       = (case map_throwing (render_card mag)
                 (butlast (build_audit_trail dr nar (populate cur cs) cs)) of
            Inl err \<Rightarrow> Inl err
          | Inr rendered_cards \<Rightarrow>
              Inr (Rendered
                \<lparr>traced_count =
                   length (filter (\<lambda>r. row_of (populate cur cs) r \<noteq> None) row_ids),
                 cards = rendered_cards,
                 summary = Some (last (build_audit_trail dr nar (populate cur cs) cs))\<rparr>))
   \<and> ((\<forall>c x. \<exists>s. mag c x = Inr s) \<longrightarrow>
        (\<exists>v. AuditTrail mag (Some (build_audit_trail dr nar (populate cur cs) cs)) = Inr (Rendered v)
           \<and> map fst (cards v) = butlast (build_audit_trail dr nar (populate cur cs) cs)
           \<and> summary v = Some (last (build_audit_trail dr nar (populate cur cs) cs))))"
proof -
  obtain es last_entry where t: "build_audit_trail dr nar (populate cur cs) cs = es @ [last_entry]"
    and rows: "map field_row es = populated_rows (populate cur cs)"
    and o: "field_row last_entry = js ''OVERALL''"
    and f: "\<forall>e \<in> set es. field_row e \<noteq> js ''OVERALL''"
    using build_audit_trail_shape by blast
  have d: "distinct (map field_row es)"
    unfolding rows populated_rows_populate using distinct_row_ids by (rule distinct_filter)
  have l: "length es = length (filter (\<lambda>r. row_of (populate cur cs) r \<noteq> None) row_ids)"
    using rows unfolding populated_rows_populate by (metis length_map)
  have r: "\<exists>v. AuditTrail mag (Some (es @ [last_entry])) = Inr (Rendered v)
      \<and> map fst (cards v) = es \<and> summary v = Some last_entry"
    if "\<forall>c x. \<exists>s. mag c x = Inr s"
  proof -
    have "\<forall>e \<in> set es. \<exists>s. render_card mag e = Inr (e, s)"
      using that by (simp add: render_card_succeeds)
    then obtain ys where "map_throwing (render_card mag) es = Inr ys" and "map fst ys = es"
      using map_throwing_succeeds by blast
    then show ?thesis
      using AuditTrail_partition [OF f o] by (simp add: AuditTrail_def)
  qed
  have a: "AuditTrail mag (Some (es @ [last_entry]))
      = (case map_throwing (render_card mag) es of
           Inl err \<Rightarrow> Inl err
         | Inr rendered_cards \<Rightarrow>
             Inr (Rendered
               \<lparr>traced_count = length (filter (\<lambda>r. row_of (populate cur cs) r \<noteq> None) row_ids),
                cards = rendered_cards,
                summary = Some last_entry\<rparr>))"
    using AuditTrail_partition [OF f o] l by (simp add: AuditTrail_def split: sum.splits)
  note part = AuditTrail_partition [OF f o]
  have c1: "length (filter (\<lambda>e. field_row e = js ''OVERALL'') (es @ [last_entry])) = 1"
    unfolding part(3) by simp
  have c3: "map field_row es = filter (\<lambda>r. row_of (populate cur cs) r \<noteq> None) row_ids"
    using rows by (simp only: populated_rows_populate)
  have c7: "fieldEntries (es @ [last_entry]) @ [last_entry] = es @ [last_entry]"
    by (simp add: part(1))
  show ?thesis
    unfolding t butlast_snoc last_snoc
    using c1 o c3 d part(1) part(2) c7 a r by blast
qed

lemma example_record_rows:
  "map (row_of (populate (js ''GBP'') example_candidates)) row_ids =
     [Some 1000000000, None, Some 200000000, None, None, None, None, None, None, None,
      Some 1200000000, Some 1200000000, Some 50000000, None, None, Some 1250000000,
      Some 100000000, None, None, Some 100000000, Some 1350000000]"
proof -
  have "map (row_value example_candidates) row_ids =
     [Some 1000000000, None, Some 200000000, None, None, None, None, None, None, None,
      Some 1200000000, Some 1200000000, Some 50000000, None, None, Some 1250000000,
      Some 100000000, None, None, Some 100000000, Some 1350000000]"
    using example_base_values
    by (simp add: row_ids_eq row_value_def group_rows Total_own_funds_def Tier2_total_def
        Tier1_total_def AT1_total_def CET1_total_def CET1_before_adjustments_def
        sum_rows_def amount_of_def)
  moreover have "map (row_of (populate (js ''GBP'') example_candidates)) row_ids
      = map (row_value example_candidates) row_ids"
    by (rule map_cong) (simp_all add: row_of_populate)
  ultimately show ?thesis
    by simp
qed

lemma filter_by_values:
  "filter (\<lambda>r. f r \<noteq> None) xs = map fst (filter (\<lambda>p. snd p \<noteq> None) (zip xs (map f xs)))"
  by (induction xs) simp_all

lemma example_populated:
  "filter (\<lambda>r. row_of (populate (js ''GBP'') example_candidates) r \<noteq> None) row_ids =
     map js [''row_010'', ''row_030'', ''row_100'', ''row_200'', ''row_300'', ''row_400'',
       ''row_500'', ''row_600'', ''row_700'']"
proof -
  have "filter (\<lambda>r. row_of (populate (js ''GBP'') example_candidates) r \<noteq> None) row_ids
      = map fst (filter (\<lambda>p. snd p \<noteq> None)
          (zip row_ids (map (row_of (populate (js ''GBP'') example_candidates)) row_ids)))"
    by (rule filter_by_values)
  also have "\<dots> = map js [''row_010'', ''row_030'', ''row_100'', ''row_200'', ''row_300'', ''row_400'',
       ''row_500'', ''row_600'', ''row_700'']"
    unfolding example_record_rows by (simp add: row_ids_eq)
  finally show ?thesis .
qed

theorem audit_trail_overall_last_witness:
  "map field_row
     (build_audit_trail (\<lambda>r. js ''sum of its rows'') (js ''summary'')
        (populate (js ''GBP'') example_candidates) example_candidates)
   = map js [''row_010'', ''row_030'', ''row_100'', ''row_200'', ''row_300'', ''row_400'',
       ''row_500'', ''row_600'', ''row_700'', ''OVERALL'']
   \<and> (\<exists>v. AuditTrail sample_magnitude
            (Some (build_audit_trail (\<lambda>r. js ''sum of its rows'') (js ''summary'')
               (populate (js ''GBP'') example_candidates) example_candidates))
          = Inr (Rendered v)
          \<and> map field_row (map fst (cards v))
              = map js [''row_010'', ''row_030'', ''row_100'', ''row_200'', ''row_300'', ''row_400'',
                  ''row_500'', ''row_600'', ''row_700''])"
proof -
  let ?trail = "build_audit_trail (\<lambda>r. js ''sum of its rows'') (js ''summary'')
        (populate (js ''GBP'') example_candidates) example_candidates"
  note t = audit_trail_overall_last [of "\<lambda>r. js ''sum of its rows''" "js ''summary''"
      "js ''GBP''" example_candidates sample_magnitude]
  note last_overall = t [THEN conjunct2, THEN conjunct1]
  note field_rows = t [THEN conjunct2, THEN conjunct2, THEN conjunct1]
  note fields = t [THEN conjunct2, THEN conjunct2, THEN conjunct2, THEN conjunct2, THEN conjunct1]
  note cover = t [THEN conjunct2, THEN conjunct2, THEN conjunct2, THEN conjunct2, THEN conjunct2,
      THEN conjunct2, THEN conjunct1]
  have "map field_row ?trail = map field_row (butlast ?trail @ [last ?trail])"
    using cover unfolding fields by simp
  also have "\<dots> = map field_row (butlast ?trail) @ [field_row (last ?trail)]"
    by simp
  also have "\<dots> = map js [''row_010'', ''row_030'', ''row_100'', ''row_200'', ''row_300'', ''row_400'',
       ''row_500'', ''row_600'', ''row_700''] @ [js ''OVERALL'']"
    unfolding field_rows last_overall example_populated ..
  finally have rows: "map field_row ?trail
      = map js [''row_010'', ''row_030'', ''row_100'', ''row_200'', ''row_300'', ''row_400'',
          ''row_500'', ''row_600'', ''row_700'', ''OVERALL'']"
    by simp
  have formats: "\<forall>c x. \<exists>s. sample_magnitude c x = Inr s"
    by (simp add: sample_magnitude_def)
  note renders = t [THEN conjunct2, THEN conjunct2, THEN conjunct2, THEN conjunct2, THEN conjunct2,
      THEN conjunct2, THEN conjunct2, THEN conjunct2, THEN mp, OF formats]
  then obtain v where v: "AuditTrail sample_magnitude (Some ?trail) = Inr (Rendered v)"
    and c: "map fst (cards v) = butlast ?trail"
    by blast
  have "map field_row (map fst (cards v))
      = map js [''row_010'', ''row_030'', ''row_100'', ''row_200'', ''row_300'', ''row_400'',
          ''row_500'', ''row_600'', ''row_700'']"
    unfolding c field_rows example_populated ..
  with v rows show ?thesis
    by blast
qed

end
